theory Spec2Isabelle
  imports Complex_Main
begin

section \<open>The request executor and the run poller of \<open>core/api_client.py\<close>\<close>

text \<open>
  The class \<open>APIClient\<close> holds four tunables (\<open>max_retries\<close>, \<open>base_timeout\<close>,
  \<open>max_run_retries\<close>, \<open>run_timeout\<close>) and the flag \<open>_run_status_check\<close>. Python's
  integers are \<open>int\<close>; seconds are floats in the source and are idealised as \<open>real\<close>.
  The flag is written by \<open>cleanup\<close> while a coroutine is suspended, so it lives in the
  world state and not in this record.
\<close>

record config =
  max_retries :: int
  base_timeout :: real
  max_run_retries :: int
  run_timeout :: real

subsection \<open>Outcomes, exceptions and the observation log\<close>

text \<open>
  One attempt is \<open>asyncio.wait_for(run_in_executor(...), timeout)\<close>. It returns the value
  of the operation (\<open>Returned\<close>), raises what the first handler, \<open>except
  asyncio.TimeoutError\<close>, catches (\<open>DeadlineExpired\<close>), or raises another \<open>Exception\<close>,
  which the second handler catches (\<open>Raised\<close>). Exceptions outside \<open>Exception\<close>, such as
  the cancellation of the task, pass through both coroutines untouched and are not
  modelled. The logging calls do not touch the control flow and are left out.
\<close>

datatype ('e, 'a) outcome = Returned 'a | DeadlineExpired | Raised 'e

text \<open>
  The exceptions that leave the two coroutines: the three the source constructs itself
  (with the numbers their messages carry), the \<open>AttributeError\<close> of reading an attribute
  of \<open>None\<close>, and an exception of the operation or of the callback, re-raised as it is.
\<close>

datatype 'e exn =
    RequestTimeout int
  | RunFailed int
  | RunTimeout real int
  | AttributeError
  | Foreign 'e

text \<open>What one call of the executor does, in order: its attempts and its backoff sleeps.\<close>

datatype ('e, 'a) xevent =
    Attempt int real "('e, 'a) outcome"
  | Backoff real

fun failed :: "('e, 'a) outcome \<Rightarrow> bool" where
  "failed (Returned v) = False"
| "failed DeadlineExpired = True"
| "failed (Raised e) = True"

fun attempts_of :: "('e, 'a) xevent list \<Rightarrow> (int \<times> real) list" where
  "attempts_of [] = []"
| "attempts_of (Attempt i t out # evs) = (i, t) # attempts_of evs"
| "attempts_of (Backoff d # evs) = attempts_of evs"

fun backoffs_of :: "('e, 'a) xevent list \<Rightarrow> real list" where
  "backoffs_of [] = []"
| "backoffs_of (Attempt i t out # evs) = backoffs_of evs"
| "backoffs_of (Backoff d # evs) = d # backoffs_of evs"


subsection \<open>\<open>_make_api_request_async\<close>\<close>

text \<open>
  \<open>func\<close> is one bridged attempt with the given deadline, \<open>sleep\<close> is \<open>asyncio.sleep\<close>;
  both act on a world state \<open>'w\<close> that the model does not look into. The body of the
  \<open>for\<close> loop is a recursion over the indices still to run. The result is the
  exception raised (\<open>Inl\<close>), the value returned (\<open>Inr (Some v)\<close>), or \<open>Inr None\<close> when the
  loop ends without a \<open>return\<close> or \<open>raise\<close>.
\<close>

fun retry_loop ::
  "config \<Rightarrow> (real \<Rightarrow> 'w \<Rightarrow> ('e, 'a) outcome \<times> 'w) \<Rightarrow> (real \<Rightarrow> 'w \<Rightarrow> 'w) \<Rightarrow> int list \<Rightarrow> 'w
    \<Rightarrow> ('e exn + 'a option) \<times> ('e, 'a) xevent list \<times> 'w" where
  "retry_loop cfg func sleep [] w = (Inr None, [], w)"
| "retry_loop cfg func sleep (retry # rest) w =
     (let timeout = base_timeout cfg * real_of_int (retry + 1) in
      case func timeout w of
        (Returned v, w1) \<Rightarrow> (Inr (Some v), [Attempt retry timeout (Returned v)], w1)
      | (DeadlineExpired, w1) \<Rightarrow>
          if retry < max_retries cfg - 1 then
            (case retry_loop cfg func sleep rest (sleep (real_of_int (1 * (retry + 1))) w1) of
               (res, evs, w2) \<Rightarrow>
                 (res, Attempt retry timeout DeadlineExpired
                       # Backoff (real_of_int (1 * (retry + 1))) # evs, w2))
          else (Inl (RequestTimeout (max_retries cfg)),
                [Attempt retry timeout DeadlineExpired], w1)
      | (Raised e, w1) \<Rightarrow>
          if retry < max_retries cfg - 1 then
            (case retry_loop cfg func sleep rest (sleep (real_of_int (1 * (retry + 1))) w1) of
               (res, evs, w2) \<Rightarrow>
                 (res, Attempt retry timeout (Raised e)
                       # Backoff (real_of_int (1 * (retry + 1))) # evs, w2))
          else (Inl (Foreign e), [Attempt retry timeout (Raised e)], w1))"

text \<open>\<open>range(n)\<close> is the list \<open>0, ..., n - 1\<close>, empty when \<open>n \<le> 0\<close>.\<close>

definition range_py :: "int \<Rightarrow> int list" where
  "range_py n = [0..n - 1]"

definition make_api_request_async ::
  "config \<Rightarrow> (real \<Rightarrow> 'w \<Rightarrow> ('e, 'a) outcome \<times> 'w) \<Rightarrow> (real \<Rightarrow> 'w \<Rightarrow> 'w) \<Rightarrow> 'w
    \<Rightarrow> ('e exn + 'a option) \<times> ('e, 'a) xevent list \<times> 'w" where
  "make_api_request_async cfg func sleep w =
     retry_loop cfg func sleep (range_py (max_retries cfg)) w"

subsection \<open>Runs, requests and the world the poller talks to\<close>

text \<open>
  The poller reads three attributes of a run object: \<open>id\<close>, \<open>assistant_id\<close> and
  \<open>status\<close>. The status is a string in the source and stays one here, so a status the
  source does not list is handled as the source handles it.
\<close>

record run =
  id_of :: string
  assistant_id :: string
  status :: string

text \<open>The three remote operations the poller passes to the executor, with their arguments.\<close>

datatype request =
    Retrieve string string
  | Create string string
  | Cancel string string

text \<open>
  The world is any type \<open>'w\<close> with four operations: one bridged attempt of a request under
  a deadline, \<open>asyncio.sleep\<close>, the event loop's clock, and the value of
  \<open>self._run_status_check\<close>. Every suspension point may change the world in any way,
  the flag included.
\<close>

record ('w, 'e) env =
  wait_for :: "request \<Rightarrow> real \<Rightarrow> 'w \<Rightarrow> ('e, run) outcome \<times> 'w"
  asyncio_sleep :: "real \<Rightarrow> 'w \<Rightarrow> 'w"
  loop_time :: "'w \<Rightarrow> real"
  run_status_check :: "'w \<Rightarrow> bool"

text \<open>What one poll session does, in order.\<close>

datatype 'e pevent =
    Request request "('e, run) xevent list"
  | PollSleep real
  | CallbackCalled run


fun is_poll_sleep :: "'e pevent \<Rightarrow> bool" where
  "is_poll_sleep (PollSleep d) = True"
| "is_poll_sleep ev = False"

fun is_callback :: "'e pevent \<Rightarrow> bool" where
  "is_callback (CallbackCalled r) = True"
| "is_callback ev = False"

text \<open>The local variables of \<open>_check_run_status\<close> that change between iterations.\<close>

record poll_state =
  run_id :: string
  start_time :: real
  retry_count :: int

datatype 'e step = Continue poll_state | Finished "'e exn + run option"

definition exec ::
  "config \<Rightarrow> ('w, 'e) env \<Rightarrow> request \<Rightarrow> 'w
    \<Rightarrow> ('e exn + run option) \<times> ('e, run) xevent list \<times> 'w" where
  "exec cfg env req w =
     make_api_request_async cfg (wait_for env req) (asyncio_sleep env) w"

subsection \<open>\<open>_check_run_status\<close>\<close>

text \<open>
  One pass through the body of the \<open>while\<close> loop. The two handlers around it only log
  and re-raise, so an exception of the body is the exception of the session. A result
  \<open>None\<close> of the executor fails at the next attribute read. The callback is an optional
  function that returns (\<open>None\<close>) or raises (\<open>Some e\<close>).
\<close>

definition poll_iteration ::
  "config \<Rightarrow> ('w, 'e) env \<Rightarrow> (run \<Rightarrow> 'w \<Rightarrow> 'e option \<times> 'w) option \<Rightarrow> string \<Rightarrow> poll_state \<Rightarrow> 'w
    \<Rightarrow> 'e step \<times> 'e pevent list \<times> 'w" where
  "poll_iteration cfg env callback thread_id st w =
     (let retrieve = Retrieve thread_id (run_id st) in
      case exec cfg env retrieve w of
        (Inl err, x1, w1) \<Rightarrow> (Finished (Inl err), [Request retrieve x1], w1)
      | (Inr None, x1, w1) \<Rightarrow> (Finished (Inl AttributeError), [Request retrieve x1], w1)
      | (Inr (Some r), x1, w1) \<Rightarrow>
          if status r \<in> set [''failed'', ''expired'', ''cancelled''] then
            if retry_count st < max_run_retries cfg then
              (let create = Create thread_id (assistant_id r) in
               case exec cfg env create w1 of
                 (Inl err, x2, w2) \<Rightarrow>
                   (Finished (Inl err), [Request retrieve x1, Request create x2], w2)
               | (Inr None, x2, w2) \<Rightarrow>
                   (Finished (Inl AttributeError), [Request retrieve x1, Request create x2], w2)
               | (Inr (Some r2), x2, w2) \<Rightarrow>
                   (Continue (st\<lparr>retry_count := retry_count st + 1, run_id := id_of r2\<rparr>),
                    [Request retrieve x1, Request create x2], w2))
            else (Finished (Inl (RunFailed (max_run_retries cfg))), [Request retrieve x1], w1)
          else if status r \<notin> set [''queued'', ''in_progress''] then
            (case callback of
               None \<Rightarrow> (Finished (Inr (Some r)), [Request retrieve x1], w1)
             | Some cb \<Rightarrow>
                 (case cb r w1 of
                    (None, w2) \<Rightarrow>
                      (Finished (Inr (Some r)), [Request retrieve x1, CallbackCalled r], w2)
                  | (Some e, w2) \<Rightarrow>
                      (Finished (Inl (Foreign e)), [Request retrieve x1, CallbackCalled r], w2)))
          else if loop_time env w1 - start_time st > run_timeout cfg then
            if retry_count st < max_run_retries cfg then
              (let cancel = Cancel thread_id (run_id st);
                   create = Create thread_id (assistant_id r) in
               case exec cfg env cancel w1 of
                 (ignored, x2, w2) \<Rightarrow>
                   (case exec cfg env create w2 of
                      (Inl err, x3, w3) \<Rightarrow>
                        (Finished (Inl err),
                         [Request retrieve x1, Request cancel x2, Request create x3], w3)
                    | (Inr None, x3, w3) \<Rightarrow>
                        (Finished (Inl AttributeError),
                         [Request retrieve x1, Request cancel x2, Request create x3], w3)
                    | (Inr (Some r2), x3, w3) \<Rightarrow>
                        (Continue (st\<lparr>retry_count := retry_count st + 1, run_id := id_of r2,
                                     start_time := loop_time env w3\<rparr>),
                         [Request retrieve x1, Request cancel x2, Request create x3], w3)))
            else (Finished (Inl (RunTimeout (run_timeout cfg) (max_run_retries cfg))),
                  [Request retrieve x1], w1)
          else (Continue st, [Request retrieve x1, PollSleep 1], asyncio_sleep env 1 w1))"

text \<open>
  The \<open>while\<close> loop. It has no bound of its own, so the model takes fuel: one unit per
  evaluation of the loop condition. The first component of the result is \<open>None\<close> when the
  fuel ran out with the session still polling, and \<open>Some\<close> of the session's outcome
  otherwise; the log and the world are those reached so far in both cases. When the flag
  is false the loop ends and the coroutine returns \<open>None\<close>, which is \<open>Some (Inr None)\<close>
  here.
\<close>

fun poll_loop ::
  "nat \<Rightarrow> config \<Rightarrow> ('w, 'e) env \<Rightarrow> (run \<Rightarrow> 'w \<Rightarrow> 'e option \<times> 'w) option \<Rightarrow> string \<Rightarrow> poll_state \<Rightarrow> 'w
    \<Rightarrow> ('e exn + run option) option \<times> 'e pevent list \<times> 'w" where
  "poll_loop 0 cfg env callback thread_id st w = (None, [], w)"
| "poll_loop (Suc fuel) cfg env callback thread_id st w =
     (if \<not> run_status_check env w then (Some (Inr None), [], w)
      else case poll_iteration cfg env callback thread_id st w of
             (Finished res, evs, w1) \<Rightarrow> (Some res, evs, w1)
           | (Continue st1, evs, w1) \<Rightarrow>
               (case poll_loop fuel cfg env callback thread_id st1 w1 of
                  (res, evs2, w2) \<Rightarrow> (res, evs @ evs2, w2)))"

definition check_run_status ::
  "nat \<Rightarrow> config \<Rightarrow> ('w, 'e) env \<Rightarrow> (run \<Rightarrow> 'w \<Rightarrow> 'e option \<times> 'w) option \<Rightarrow> string \<Rightarrow> string \<Rightarrow> 'w
    \<Rightarrow> ('e exn + run option) option \<times> 'e pevent list \<times> 'w" where
  "check_run_status fuel cfg env callback thread_id rid w =
     poll_loop fuel cfg env callback thread_id
       \<lparr>run_id = rid, start_time = loop_time env w, retry_count = 0\<rparr> w"

subsection \<open>A scripted world for concrete runs\<close>

text \<open>
  Each bridged attempt takes the next reply of a script: its outcome, the time it took,
  and whether \<open>cleanup\<close> ran meanwhile. A reply that takes longer than the deadline is
  lost to the deadline, and so is every attempt once the script is used up. Sleeping moves
  the clock. \<open>cleanup\<close> clears the flag and shuts the thread pool down, waiting for the
  work in flight; from then on \<open>run_in_executor\<close> raises a \<open>RuntimeError\<close> at every
  attempt, before anything is sent.
\<close>

record reply =
  answer :: "(string, run) outcome"
  took :: real
  stops :: bool

record sim =
  replies :: "reply list"
  now :: real
  polling :: bool
  pool_shutdown :: bool

definition cleanup :: "sim \<Rightarrow> sim" where
  "cleanup w = w\<lparr>polling := False, pool_shutdown := True\<rparr>"

definition sim_wait_for :: "request \<Rightarrow> real \<Rightarrow> sim \<Rightarrow> (string, run) outcome \<times> sim" where
  "sim_wait_for req timeout w =
     (if pool_shutdown w then (Raised ''cannot schedule new futures after shutdown'', w)
      else case replies w of
        [] \<Rightarrow> (DeadlineExpired, w\<lparr>now := now w + timeout\<rparr>)
      | r # rs \<Rightarrow>
          if timeout < took r
          then (DeadlineExpired, w\<lparr>replies := rs, now := now w + timeout\<rparr>)
          else (answer r,
                (if stops r then cleanup else id)
                  (w\<lparr>replies := rs, now := now w + took r\<rparr>)))"

definition sim_env :: "(sim, string) env" where
  "sim_env = \<lparr>wait_for = sim_wait_for,
              asyncio_sleep = (\<lambda>d w. w\<lparr>now := now w + d\<rparr>),
              loop_time = now,
              run_status_check = polling\<rparr>"

definition defaults :: config where
  "defaults = \<lparr>max_retries = 2, base_timeout = 30, max_run_retries = 2, run_timeout = 30\<rparr>"

definition a_run :: "string \<Rightarrow> string \<Rightarrow> run" where
  "a_run i s = \<lparr>id_of = i, assistant_id = ''asst'', status = s\<rparr>"

definition ok :: "run \<Rightarrow> real \<Rightarrow> reply" where
  "ok r d = \<lparr>answer = Returned r, took = d, stops = False\<rparr>"

text \<open>
  Two operations for concrete runs of the executor alone, one that always raises and one
  that always runs into its deadline, and a sleep that does nothing; the world counts the
  calls.
\<close>

definition refuse :: "real \<Rightarrow> nat \<Rightarrow> (string, run) outcome \<times> nat" where
  "refuse t w = (Raised ''refused'', Suc w)"


definition no_sleep :: "real \<Rightarrow> nat \<Rightarrow> nat" where
  "no_sleep d w = w"

subsection \<open>A world that records the calls\<close>

text \<open>
  To say what the executor asks of its surroundings, the world is the list of the calls
  made so far: each bridged attempt with the deadline it was given and what came back,
  and each \<open>asyncio.sleep\<close> with its duration. The operation is any function of the
  calls made before and of the deadline, so every deterministic operation is covered.
\<close>

datatype ('e, 'a) call = Waited real "('e, 'a) outcome" | Slept real

definition bridge ::
  "(('e, 'a) call list \<Rightarrow> real \<Rightarrow> ('e, 'a) outcome) \<Rightarrow> real \<Rightarrow> ('e, 'a) call list
    \<Rightarrow> ('e, 'a) outcome \<times> ('e, 'a) call list" where
  "bridge operation timeout h =
     (operation h timeout, h @ [Waited timeout (operation h timeout)])"

definition sleeping :: "real \<Rightarrow> ('e, 'a) call list \<Rightarrow> ('e, 'a) call list" where
  "sleeping d h = h @ [Slept d]"

text \<open>The call that a log entry of the executor stands for.\<close>

fun call_of :: "('e, 'a) xevent \<Rightarrow> ('e, 'a) call" where
  "call_of (Attempt i t out) = Waited t out"
| "call_of (Backoff d) = Slept d"

fun waits_of :: "('e, 'a) call list \<Rightarrow> real list" where
  "waits_of [] = []"
| "waits_of (Waited t out # cs) = t # waits_of cs"
| "waits_of (Slept d # cs) = waits_of cs"

fun sleeps_of :: "('e, 'a) call list \<Rightarrow> real list" where
  "sleeps_of [] = []"
| "sleeps_of (Waited t out # cs) = sleeps_of cs"
| "sleeps_of (Slept d # cs) = d # sleeps_of cs"


text \<open>
  The calls start with an attempt, end with an attempt, and every sleep stands between
  two attempts.
\<close>

fun interleaved :: "('e, 'a) call list \<Rightarrow> bool" where
  "interleaved [] = True"
| "interleaved [Waited t out] = True"
| "interleaved (Waited t out # Slept d # cs) = (cs \<noteq> [] \<and> interleaved cs)"
| "interleaved cs = False"

definition always_refused :: "(string, run) call list \<Rightarrow> real \<Rightarrow> (string, run) outcome" where
  "always_refused h t = Raised ''refused''"

definition always_stalled :: "(string, run) call list \<Rightarrow> real \<Rightarrow> (string, run) outcome" where
  "always_stalled h t = DeadlineExpired"

text \<open>Two callbacks and the scripts of the concrete sessions used below.\<close>

definition quiet :: "run \<Rightarrow> sim \<Rightarrow> string option \<times> sim" where
  "quiet r w = (None, w)"

definition loud :: "run \<Rightarrow> sim \<Rightarrow> string option \<times> sim" where
  "loud r w = (Some ''callback failed'', w)"

definition three_reads :: sim where
  "three_reads =
     \<lparr>replies = [ok (a_run ''r0'' ''queued'') 1, ok (a_run ''r0'' ''in_progress'') 1,
                 ok (a_run ''r0'' ''completed'') 1],
      now = 0, polling = True, pool_shutdown = False\<rparr>"

definition slow_reads :: sim where
  "slow_reads =
     \<lparr>replies = [ok (a_run ''r0'' ''queued'') 20, ok (a_run ''r0'' ''in_progress'') 20,
                 ok (a_run ''r0'' ''cancelled'') 1, ok (a_run ''r1'' ''queued'') 1,
                 ok (a_run ''r1'' ''completed'') 1],
      now = 0, polling = True, pool_shutdown = False\<rparr>"

definition stale_timer :: sim where
  "stale_timer =
     \<lparr>replies = [ok (a_run ''r0'' ''failed'') 29, ok (a_run ''r1'' ''queued'') 1,
                 ok (a_run ''r1'' ''in_progress'') 1, ok (a_run ''r1'' ''cancelled'') 1,
                 ok (a_run ''r2'' ''queued'') 1, ok (a_run ''r2'' ''completed'') 1],
      now = 0, polling = True, pool_shutdown = False\<rparr>"



definition cancel_fails :: sim where
  "cancel_fails =
     \<lparr>replies = [ok (a_run ''r0'' ''in_progress'') 25,
                 \<lparr>answer = Raised ''gone'', took = 1, stops = False\<rparr>,
                 \<lparr>answer = Raised ''gone'', took = 1, stops = False\<rparr>,
                 ok (a_run ''r1'' ''queued'') 1],
      now = 10, polling = True, pool_shutdown = False\<rparr>"

definition cleared_mid_read :: sim where
  "cleared_mid_read =
     \<lparr>replies = [ok (a_run ''r0'' ''failed'') 1, ok (a_run ''r1'' ''queued'') 1,
                 \<lparr>answer = Returned (a_run ''r1'' ''failed''), took = 1, stops = True\<rparr>],
      now = 0, polling = True, pool_shutdown = False\<rparr>"

definition cleared_while_queued :: sim where
  "cleared_while_queued =
     \<lparr>replies = [\<lparr>answer = Returned (a_run ''r0'' ''queued''), took = 1, stops = True\<rparr>],
      now = 0, polling = True, pool_shutdown = False\<rparr>"



definition stopped :: sim where
  "stopped = \<lparr>replies = [ok (a_run ''r0'' ''failed'') 1], now = 0, polling = False, pool_shutdown = True\<rparr>"

definition after_queued :: sim where
  "after_queued = \<lparr>replies = [ok (a_run ''r0'' ''in_progress'') 1, ok (a_run ''r0'' ''completed'') 1],
      now = 1, polling = True, pool_shutdown = False\<rparr>"

definition after_in_progress :: sim where
  "after_in_progress = \<lparr>replies = [ok (a_run ''r0'' ''completed'') 1], now = 3, polling = True, pool_shutdown = False\<rparr>"

definition after_completed :: sim where
  "after_completed = \<lparr>replies = [], now = 5, polling = True, pool_shutdown = False\<rparr>"

definition cancel_state :: poll_state where
  "cancel_state = \<lparr>run_id = ''r0'', start_time = 0, retry_count = 0\<rparr>"

definition read_late :: sim where
  "read_late = \<lparr>replies = [\<lparr>answer = Raised ''gone'', took = 1, stops = False\<rparr>,
       \<lparr>answer = Raised ''gone'', took = 1, stops = False\<rparr>, ok (a_run ''r1'' ''queued'') 1],
     now = 35, polling = True, pool_shutdown = False\<rparr>"

definition cancel_gave_up :: sim where
  "cancel_gave_up = \<lparr>replies = [ok (a_run ''r1'' ''queued'') 1], now = 38, polling = True, pool_shutdown = False\<rparr>"

definition recreated :: sim where
  "recreated = \<lparr>replies = [], now = 39, polling = True, pool_shutdown = False\<rparr>"


definition queued_state :: poll_state where
  "queued_state = \<lparr>run_id = ''r0'', start_time = 0, retry_count = 0\<rparr>"

definition slept_stopped :: sim where
  "slept_stopped = \<lparr>replies = [], now = 2, polling = False, pool_shutdown = True\<rparr>"

section \<open>The executor\<close>

subsection \<open>The loop from any index on\<close>

text \<open>
  The attempts made from index \<open>k\<close> on are \<open>k, ..., j\<close> for some \<open>j\<close>, each under
  \<open>base_timeout * (i + 1)\<close>, and a backoff of \<open>i + 1\<close> seconds follows each but the last.
\<close>

lemma retry_loop_shape:
  "retry_loop cfg func sleep [k..max_retries cfg - 1] w = (res, evs, w') \<Longrightarrow>
   \<exists>j. (if k \<le> max_retries cfg - 1 then k \<le> j \<and> j \<le> max_retries cfg - 1 else j = k - 1) \<and>
       attempts_of evs = map (\<lambda>i. (i, base_timeout cfg * real_of_int (i + 1))) [k..j] \<and>
       backoffs_of evs = map (\<lambda>i. real_of_int (i + 1)) [k..j - 1]"
proof (induction k "max_retries cfg - 1" arbitrary: w res evs w' rule: upto.induct)
  case (1 k)
  show ?case
  proof (cases "k \<le> max_retries cfg - 1")
    case False
    with "1.prems" have "evs = []" by (simp add: upto.simps)
    with False show ?thesis by (intro exI[of _ "k - 1"]) simp
  next
    case True
    then have up: "[k..max_retries cfg - 1] = k # [k + 1..max_retries cfg - 1]"
      by (simp add: upto.simps)
    obtain out w1 where f: "func (base_timeout cfg * real_of_int (k + 1)) w = (out, w1)"
      by (cases "func (base_timeout cfg * real_of_int (k + 1)) w")
    show ?thesis
    proof (cases "failed out \<and> k < max_retries cfg - 1")
      case stop: False
      with "1.prems" up f
      have "attempts_of evs = [(k, base_timeout cfg * real_of_int (k + 1))]"
        and "backoffs_of evs = []"
        by (cases out; auto simp: Let_def split: if_splits)+
      with True show ?thesis by (intro exI[of _ k]) (simp add: upto.simps)
    next
      case go: True
      obtain res2 evs2 w2 where
        r: "retry_loop cfg func sleep [k + 1..max_retries cfg - 1]
              (sleep (real_of_int (k + 1)) w1) = (res2, evs2, w2)"
        by (metis prod_cases3)
      from go "1.hyps"[OF True r] obtain j where
        j: "k + 1 \<le> j" "j \<le> max_retries cfg - 1"
          "attempts_of evs2 = map (\<lambda>i. (i, base_timeout cfg * real_of_int (i + 1))) [k + 1..j]"
          "backoffs_of evs2 = map (\<lambda>i. real_of_int (i + 1)) [k + 1..j - 1]"
        by auto
      from go "1.prems" up f r
      have evs: "attempts_of evs = (k, base_timeout cfg * real_of_int (k + 1)) # attempts_of evs2"
        "backoffs_of evs = real_of_int (k + 1) # backoffs_of evs2"
        by (cases out; auto simp: Let_def)+
      have u1: "[k..j] = k # [k + 1..j]" using j(1) by (simp add: upto.simps)
      have u2: "[k..j - 1] = k # [k + 1..j - 1]" using j(1) by (simp add: upto.simps)
      from True j evs u1 u2 show ?thesis by (intro exI[of _ j]) simp
    qed
  qed
qed


text \<open>The last event of a call is an attempt, and its outcome decides the result.\<close>

lemma retry_loop_last:
  assumes "k \<le> max_retries cfg - 1"
    and "retry_loop cfg func sleep [k..max_retries cfg - 1] w = (res, evs, w')"
  shows "evs \<noteq> [] \<and>
         (\<exists>i t out. last evs = Attempt i t out \<and>
            (case out of
               Returned v \<Rightarrow> res = Inr (Some v)
             | DeadlineExpired \<Rightarrow>
                 i = max_retries cfg - 1 \<and> res = Inl (RequestTimeout (max_retries cfg))
             | Raised e \<Rightarrow> i = max_retries cfg - 1 \<and> res = Inl (Foreign e)))"
  using assms
proof (induction k "max_retries cfg - 1" arbitrary: w res evs w' rule: upto.induct)
  case (1 k)
  then have up: "[k..max_retries cfg - 1] = k # [k + 1..max_retries cfg - 1]"
    by (simp add: upto.simps)
  obtain out w1 where f: "func (base_timeout cfg * real_of_int (k + 1)) w = (out, w1)"
    by (cases "func (base_timeout cfg * real_of_int (k + 1)) w")
  show ?case
  proof (cases "failed out \<and> k < max_retries cfg - 1")
    case False
    with "1.prems" up f show ?thesis
      by (cases out) (auto simp: Let_def split: if_splits)
  next
    case True
    obtain res2 evs2 w2 where
      r: "retry_loop cfg func sleep [k + 1..max_retries cfg - 1]
            (sleep (real_of_int (k + 1)) w1) = (res2, evs2, w2)"
      by (metis prod_cases3)
    from True have "k + 1 \<le> max_retries cfg - 1" by simp
    from "1.hyps"[OF "1.prems"(1) this r] have ih: "evs2 \<noteq> []"
      "\<exists>i t out. last evs2 = Attempt i t out \<and>
         (case out of
            Returned v \<Rightarrow> res2 = Inr (Some v)
          | DeadlineExpired \<Rightarrow>
              i = max_retries cfg - 1 \<and> res2 = Inl (RequestTimeout (max_retries cfg))
          | Raised e \<Rightarrow> i = max_retries cfg - 1 \<and> res2 = Inl (Foreign e))"
      by auto
    from True "1.prems" up f r have
      "evs = Attempt k (base_timeout cfg * real_of_int (k + 1)) out
               # Backoff (real_of_int (k + 1)) # evs2"
      "res = res2"
      by (cases out; auto simp: Let_def)+
    with ih show ?thesis by auto
  qed
qed

lemma strict_upto: "sorted_wrt (<) [a..(j::int)]"
  by (simp add: sorted_wrt_iff_nth_less)

lemma timeouts_increase:
  "0 < (b::real) \<Longrightarrow> sorted_wrt (<) (map (\<lambda>i. b * real_of_int (i + 1)) [a..j])"
  by (simp add: sorted_wrt_map sorted_wrt_mono_rel[OF _ strict_upto])

subsection \<open>The log and the calls\<close>

text \<open>In the recording world the log of a call is exactly the list of the calls it made.\<close>

lemma retry_loop_calls:
  "retry_loop cfg (bridge operation) sleeping ks h0 = (res, evs, h) \<Longrightarrow>
   h = h0 @ map call_of evs"
proof (induction ks arbitrary: h0 res evs h)
  case Nil
  then show ?case by simp
next
  case (Cons k ks)
  let ?t = "base_timeout cfg * real_of_int (k + 1)"
  let ?out = "operation h0 ?t"
  let ?h1 = "h0 @ [Waited ?t ?out]"
  obtain res2 evs2 h2 where
    r: "retry_loop cfg (bridge operation) sleeping ks (sleeping (real_of_int (k + 1)) ?h1)
          = (res2, evs2, h2)"
    by (metis prod_cases3)
  from Cons.IH[OF r] have ih: "h2 = ?h1 @ [Slept (real_of_int (k + 1))] @ map call_of evs2"
    by (simp add: sleeping_def)
  have f: "bridge operation ?t h0 = (?out, ?h1)" by (simp add: bridge_def)
  from Cons.prems r ih f show ?case
    by (cases ?out) (auto simp: Let_def split: if_splits)
qed

lemma waits_of_log: "waits_of (map call_of evs) = map snd (attempts_of evs)"
  by (induction evs rule: attempts_of.induct) simp_all

lemma sleeps_of_log: "sleeps_of (map call_of evs) = backoffs_of evs"
  by (induction evs rule: backoffs_of.induct) simp_all


lemma retry_loop_interleaved:
  "retry_loop cfg func sleep [k..max_retries cfg - 1] w = (res, evs, w') \<Longrightarrow>
   interleaved (map call_of evs)"
proof (induction k "max_retries cfg - 1" arbitrary: w res evs w' rule: upto.induct)
  case (1 k)
  show ?case
  proof (cases "k \<le> max_retries cfg - 1")
    case False
    with "1.prems" show ?thesis by (simp add: upto.simps)
  next
    case True
    then have up: "[k..max_retries cfg - 1] = k # [k + 1..max_retries cfg - 1]"
      by (simp add: upto.simps)
    obtain out w1 where f: "func (base_timeout cfg * real_of_int (k + 1)) w = (out, w1)"
      by (cases "func (base_timeout cfg * real_of_int (k + 1)) w")
    show ?thesis
    proof (cases "failed out \<and> k < max_retries cfg - 1")
      case False
      with "1.prems" up f show ?thesis
        by (cases out) (auto simp: Let_def split: if_splits)
    next
      case go: True
      obtain res2 evs2 w2 where
        r: "retry_loop cfg func sleep [k + 1..max_retries cfg - 1]
              (sleep (real_of_int (k + 1)) w1) = (res2, evs2, w2)"
        by (metis prod_cases3)
      from go have k1: "k + 1 \<le> max_retries cfg - 1" by simp
      from retry_loop_last[OF k1 r] have ne: "evs2 \<noteq> []" by simp
      from "1.hyps"[OF True r] have ih: "interleaved (map call_of evs2)" .
      from go "1.prems" up f r have
        "evs = Attempt k (base_timeout cfg * real_of_int (k + 1)) out
                 # Backoff (real_of_int (k + 1)) # evs2"
        by (cases out; auto simp: Let_def)
      with ne ih show ?thesis by simp
    qed
  qed
qed

subsection \<open>Concrete calls\<close>






lemmas recording_eval =
  make_api_request_async_def range_py_def defaults_def Let_def upto.simps
  bridge_def sleeping_def always_refused_def always_stalled_def

lemma refused_thrice:
  "make_api_request_async (defaults\<lparr>max_retries := 3\<rparr>) (bridge always_refused) sleeping [] =
     (Inl (Foreign ''refused''),
      [Attempt 0 30 (Raised ''refused''), Backoff 1, Attempt 1 60 (Raised ''refused''),
       Backoff 2, Attempt 2 90 (Raised ''refused'')],
      [Waited 30 (Raised ''refused''), Slept 1, Waited 60 (Raised ''refused''),
       Slept 2, Waited 90 (Raised ''refused'')])"
  by (simp add: recording_eval)




subsection \<open>Claims about the executor\<close>



text \<open>
  C2. In every call of the executor, whatever the operation does, the deadlines handed
  to the bridge are, in order, \<open>base_timeout * (i + 1)\<close> for \<open>i = 0, 1, ...\<close>; the
  durations handed to \<open>asyncio.sleep\<close> are, in order, \<open>1 * (i + 1)\<close>; the sleep with
  index \<open>i\<close> stands between the invocations \<open>i\<close> and \<open>i + 1\<close>; at most \<open>max_retries\<close>
  invocations are made; and the executor's log is exactly the list of these calls. With
  a positive \<open>base_timeout\<close> the deadlines strictly increase.
\<close>

theorem executor_schedule:
  assumes "make_api_request_async cfg (bridge operation) sleeping [] = (res, evs, h)"
  shows "waits_of h = map (\<lambda>i. base_timeout cfg * real_of_int (i + 1))
                          [0..int (length (waits_of h)) - 1] \<and>
         sleeps_of h = map (\<lambda>i. real_of_int (1 * (i + 1)))
                           [0..int (length (waits_of h)) - 2] \<and>
         interleaved h \<and>
         int (length (waits_of h)) \<le> max 0 (max_retries cfg) \<and>
         h = map call_of evs \<and>
         (0 < base_timeout cfg \<longrightarrow> sorted_wrt (<) (waits_of h))"
proof -
  from assms have r: "retry_loop cfg (bridge operation) sleeping [0..max_retries cfg - 1] []
      = (res, evs, h)"
    by (simp add: make_api_request_async_def range_py_def)
  from retry_loop_calls[OF r] have h: "h = map call_of evs" by simp
  from retry_loop_shape[OF r] obtain j where
    j: "if 0 \<le> max_retries cfg - 1 then 0 \<le> j \<and> j \<le> max_retries cfg - 1 else j = 0 - 1"
    and a: "attempts_of evs = map (\<lambda>i. (i, base_timeout cfg * real_of_int (i + 1))) [0..j]"
    and b: "backoffs_of evs = map (\<lambda>i. real_of_int (i + 1)) [0..j - 1]"
    by blast
  from j have j1: "- 1 \<le> j" by (auto split: if_splits)
  from a have w: "waits_of h = map (\<lambda>i. base_timeout cfg * real_of_int (i + 1)) [0..j]"
    by (simp add: h waits_of_log comp_def)
  from b have s: "sleeps_of h = map (\<lambda>i. real_of_int (i + 1)) [0..j - 1]"
    by (simp add: h sleeps_of_log)
  from w j1 have len: "int (length (waits_of h)) = j + 1" by simp
  have inc: "0 < base_timeout cfg \<Longrightarrow> sorted_wrt (<) (waits_of h)"
    using timeouts_increase[of "base_timeout cfg" 0 j] by (simp add: w)
  from j len have le: "int (length (waits_of h)) \<le> max 0 (max_retries cfg)"
    by (auto split: if_splits)
  from retry_loop_interleaved[OF r] h have i: "interleaved h" by simp
  from w s len inc le i h show ?thesis by simp
qed

theorem executor_schedule_witness:
  "make_api_request_async (defaults\<lparr>max_retries := 3\<rparr>) (bridge always_refused) sleeping [] =
     (Inl (Foreign ''refused''),
      [Attempt 0 30 (Raised ''refused''), Backoff 1, Attempt 1 60 (Raised ''refused''),
       Backoff 2, Attempt 2 90 (Raised ''refused'')],
      [Waited 30 (Raised ''refused''), Slept 1, Waited 60 (Raised ''refused''),
       Slept 2, Waited 90 (Raised ''refused'')]) \<and>
   0 < base_timeout (defaults\<lparr>max_retries := 3\<rparr>) \<and>
   waits_of [Waited 30 (Raised ''refused''), Slept 1, Waited 60 (Raised ''refused''),
       Slept 2, Waited 90 (Raised ''refused'' :: (string, run) outcome)]
     = [30, 60, 90] \<and>
   sleeps_of [Waited 30 (Raised ''refused''), Slept 1, Waited 60 (Raised ''refused''),
       Slept 2, Waited 90 (Raised ''refused'' :: (string, run) outcome)]
     = [1, 2] \<and>
   interleaved [Waited 30 (Raised ''refused''), Slept 1, Waited 60 (Raised ''refused''),
       Slept 2, Waited (90::real) (Raised ''refused'' :: (string, run) outcome)] \<and>
   sorted_wrt (<) (waits_of [Waited 30 (Raised ''refused''), Slept 1,
       Waited 60 (Raised ''refused''), Slept 2,
       Waited 90 (Raised ''refused'' :: (string, run) outcome)])"
proof -
  note t = executor_schedule[OF refused_thrice]
  have p: "0 < base_timeout (defaults\<lparr>max_retries := 3\<rparr>)" by (simp add: defaults_def)
  note i = t[THEN conjunct2, THEN conjunct2, THEN conjunct1]
  note s = t[THEN conjunct2, THEN conjunct2, THEN conjunct2, THEN conjunct2, THEN conjunct2,
      THEN mp, OF p]
  have w: "waits_of [Waited 30 (Raised ''refused''), Slept 1, Waited 60 (Raised ''refused''),
       Slept 2, Waited 90 (Raised ''refused'' :: (string, run) outcome)] = [30, 60, 90]"
    by simp
  have sl: "sleeps_of [Waited 30 (Raised ''refused''), Slept 1, Waited 60 (Raised ''refused''),
       Slept 2, Waited 90 (Raised ''refused'' :: (string, run) outcome)] = [1, 2]"
    by simp
  show ?thesis by (intro conjI refused_thrice p w sl i s)
qed



text \<open>
  C9. With \<open>max_retries = 0\<close> the executor makes no attempt, does not sleep, raises
  nothing and returns \<open>None\<close>; nothing checks that the tunable is positive.
\<close>

theorem executor_zero_retries:
  "max_retries cfg = 0 \<Longrightarrow> make_api_request_async cfg func sleep w = (Inr None, [], w)"
  by (simp add: make_api_request_async_def range_py_def)

theorem executor_zero_retries_witness:
  "max_retries (defaults\<lparr>max_retries := 0\<rparr>) = 0 \<and>
   make_api_request_async (defaults\<lparr>max_retries := 0\<rparr>) refuse no_sleep 0 = (Inr None, [], 0)"
  using executor_zero_retries[of "defaults\<lparr>max_retries := 0\<rparr>" refuse no_sleep 0]
  by (simp add: defaults_def)

section \<open>The poller\<close>

subsection \<open>Invariants of the loop\<close>

lemmas it_splits = prod.splits sum.splits option.splits if_splits



text \<open>The callback runs only in an iteration that ends the session, and then once.\<close>

lemma poll_iteration_continue_no_callback:
  "poll_iteration cfg env callback thread_id st w = (Continue st1, evs, w1) \<Longrightarrow>
   filter is_callback evs = []"
  by (auto simp: poll_iteration_def Let_def split: it_splits)

lemma poll_iteration_finished_callback:
  assumes "poll_iteration cfg env callback thread_id st w = (Finished res, evs, w1)"
  shows "length (filter is_callback evs) \<le> 1 \<and>
         (filter is_callback evs \<noteq> [] \<longrightarrow>
            (\<exists>cb r w0. callback = Some cb \<and>
               (fst (cb r w0) = None \<and> res = Inr (Some r) \<or>
                (\<exists>e. fst (cb r w0) = Some e \<and> res = Inl (Foreign e)))))"
  using assms
  by (auto simp: poll_iteration_def Let_def split: it_splits; metis fst_conv)

lemma poll_loop_callback:
  "poll_loop fuel cfg env callback thread_id st w = (res, evs, w') \<Longrightarrow>
   length (filter is_callback evs) \<le> 1 \<and>
   (filter is_callback evs \<noteq> [] \<longrightarrow>
      (\<exists>cb r w0. callback = Some cb \<and>
         (fst (cb r w0) = None \<and> res = Some (Inr (Some r)) \<or>
          (\<exists>e. fst (cb r w0) = Some e \<and> res = Some (Inl (Foreign e))))))"
proof (induction fuel arbitrary: st w res evs w')
  case 0
  then show ?case by simp
next
  case (Suc fuel)
  show ?case
  proof (cases "run_status_check env w")
    case False
    with Suc.prems show ?thesis by simp
  next
    case True
    obtain step evs1 w1 where
      it: "poll_iteration cfg env callback thread_id st w = (step, evs1, w1)"
      by (metis prod_cases3)
    show ?thesis
    proof (cases step)
      case (Finished r)
      with True it Suc.prems(1) have "evs = evs1" "res = Some r" by simp_all
      with poll_iteration_finished_callback[of cfg env callback thread_id st w r evs w1]
        it Finished
      show ?thesis by simp
    next
      case (Continue st1)
      with True it Suc.prems(1) obtain evs2 where
        r: "poll_loop fuel cfg env callback thread_id st1 w1 = (res, evs2, w')"
        and e: "evs = evs1 @ evs2"
        by (auto split: prod.splits)
      from it Continue have "filter is_callback evs1 = []"
        using poll_iteration_continue_no_callback by metis
      with Suc.IH[OF r] e show ?thesis by simp
    qed
  qed
qed

subsection \<open>Concrete sessions\<close>

lemmas sim_eval =
  check_run_status_def poll_iteration_def exec_def make_api_request_async_def range_py_def
  sim_env_def sim_wait_for_def cleanup_def defaults_def a_run_def ok_def Let_def upto.simps eval_nat_numeral

lemmas three_worlds = three_reads_def after_queued_def after_in_progress_def after_completed_def

lemmas cancel_worlds = cancel_fails_def cancel_state_def read_late_def cancel_gave_up_def
  recreated_def






subsection \<open>Claims about the poller\<close>

text \<open>
  C4. The claim is that the wall-clock timer restarts at every recreation of the run. The
  timeout path does restart it; the path for a \<open>failed\<close>, \<open>expired\<close> or \<open>cancelled\<close>
  run recreates the run and leaves \<open>start_time\<close> as it was. In the session below the first
  read, 29 seconds in, reports \<open>failed\<close>; the run is recreated at second 30 and
  \<open>start_time\<close> is still 0; the read at second 31 finds the new run \<open>in_progress\<close>, and
  the poller takes it for timed out, cancels it and recreates it again, one second after
  its creation.
\<close>

theorem status_recovery_keeps_old_timer:
  "poll_iteration defaults sim_env None ''t''
       \<lparr>run_id = ''r0'', start_time = 0, retry_count = 0\<rparr> stale_timer =
     (Continue \<lparr>run_id = ''r1'', start_time = 0, retry_count = 1\<rparr>,
      [Request (Retrieve ''t'' ''r0'') [Attempt 0 30 (Returned (a_run ''r0'' ''failed''))],
       Request (Create ''t'' ''asst'') [Attempt 0 30 (Returned (a_run ''r1'' ''queued''))]],
      \<lparr>replies = [ok (a_run ''r1'' ''in_progress'') 1, ok (a_run ''r1'' ''cancelled'') 1,
                  ok (a_run ''r2'' ''queued'') 1, ok (a_run ''r2'' ''completed'') 1],
       now = 30, polling = True, pool_shutdown = False\<rparr>) \<and>
   check_run_status 3 defaults sim_env None ''t'' ''r0'' stale_timer =
     (Some (Inr (Some (a_run ''r2'' ''completed''))),
       [Request (Retrieve ''t'' ''r0'') [Attempt 0 30 (Returned (a_run ''r0'' ''failed''))],
        Request (Create ''t'' ''asst'') [Attempt 0 30 (Returned (a_run ''r1'' ''queued''))],
        Request (Retrieve ''t'' ''r1'') [Attempt 0 30 (Returned (a_run ''r1'' ''in_progress''))],
        Request (Cancel ''t'' ''r1'') [Attempt 0 30 (Returned (a_run ''r1'' ''cancelled''))],
        Request (Create ''t'' ''asst'') [Attempt 0 30 (Returned (a_run ''r2'' ''queued''))],
        Request (Retrieve ''t'' ''r2'') [Attempt 0 30 (Returned (a_run ''r2'' ''completed''))]],
       \<lparr>replies = [], now = 34, polling = True, pool_shutdown = False\<rparr>)"
  by (simp add: sim_eval stale_timer_def)



text \<open>
  C6, as stated, fails: the wall-clock check runs at every read of \<open>queued\<close> or
  \<open>in_progress\<close>, whatever the sequence of statuses, and the callback may raise. In the
  first session below the reads report \<open>queued\<close>, \<open>in_progress\<close>, \<open>completed\<close>, each
  reply within its deadline, but the second read comes 41 seconds after the start: the
  poller sleeps once, cancels, recreates, and returns the completed new run after one
  poll sleep, not two. In the second session the three reads come in time and the
  callback raises: the callback has run, the session fails, and no run is returned.
\<close>

theorem three_statuses_counterexample:
  "check_run_status 3 defaults sim_env (Some quiet) ''t'' ''r0'' slow_reads =
     (Some (Inr (Some (a_run ''r1'' ''completed''))),
      [Request (Retrieve ''t'' ''r0'') [Attempt 0 30 (Returned (a_run ''r0'' ''queued''))],
       PollSleep 1,
       Request (Retrieve ''t'' ''r0'') [Attempt 0 30 (Returned (a_run ''r0'' ''in_progress''))],
       Request (Cancel ''t'' ''r0'') [Attempt 0 30 (Returned (a_run ''r0'' ''cancelled''))],
       Request (Create ''t'' ''asst'') [Attempt 0 30 (Returned (a_run ''r1'' ''queued''))],
       Request (Retrieve ''t'' ''r1'') [Attempt 0 30 (Returned (a_run ''r1'' ''completed''))],
       CallbackCalled (a_run ''r1'' ''completed'')],
      \<lparr>replies = [], now = 44, polling = True, pool_shutdown = False\<rparr>) \<and>
   length (filter is_poll_sleep
     (fst (snd (check_run_status 3 defaults sim_env (Some quiet) ''t'' ''r0'' slow_reads)))) = 1 \<and>
   check_run_status 3 defaults sim_env (Some loud) ''t'' ''r0'' three_reads =
     (Some (Inl (Foreign ''callback failed'')),
      [Request (Retrieve ''t'' ''r0'') [Attempt 0 30 (Returned (a_run ''r0'' ''queued''))],
       PollSleep 1,
       Request (Retrieve ''t'' ''r0'') [Attempt 0 30 (Returned (a_run ''r0'' ''in_progress''))],
       PollSleep 1,
       Request (Retrieve ''t'' ''r0'') [Attempt 0 30 (Returned (a_run ''r0'' ''completed''))],
       CallbackCalled (a_run ''r0'' ''completed'')],
      after_completed)"
  by (simp add: sim_eval slow_reads_def three_worlds quiet_def loud_def)

text \<open>
  C6, amended. When the three reads succeed and report \<open>queued\<close>, \<open>in_progress\<close> and
  \<open>completed\<close>, the first two within \<open>run_timeout\<close> of the session's start, the flag
  is set at each loop head, and the callback returns, the session is exactly: read,
  sleep 1, read, sleep 1, read, callback on the completed run; and it returns that run.
  In any session the callback runs at most once, and a session that ends in an error
  after the callback ran ends in the error the callback itself raised: no failure path
  of the poller calls it.
\<close>

theorem queued_in_progress_completed:
  assumes "run_status_check env w0"
    and "exec cfg env (Retrieve thread_id rid) w0 = (Inr (Some r1), x1, w1)"
    and "status r1 = ''queued''"
    and "loop_time env w1 - loop_time env w0 \<le> run_timeout cfg"
    and "run_status_check env (asyncio_sleep env 1 w1)"
    and "exec cfg env (Retrieve thread_id rid) (asyncio_sleep env 1 w1) = (Inr (Some r2), x2, w2)"
    and "status r2 = ''in_progress''"
    and "loop_time env w2 - loop_time env w0 \<le> run_timeout cfg"
    and "run_status_check env (asyncio_sleep env 1 w2)"
    and "exec cfg env (Retrieve thread_id rid) (asyncio_sleep env 1 w2) = (Inr (Some r3), x3, w3)"
    and "status r3 = ''completed''"
    and "cb r3 w3 = (None, w4)"
  shows "check_run_status (Suc (Suc (Suc fuel))) cfg env (Some cb) thread_id rid w0 =
           (Some (Inr (Some r3)),
                 [Request (Retrieve thread_id rid) x1, PollSleep 1,
                  Request (Retrieve thread_id rid) x2, PollSleep 1,
                  Request (Retrieve thread_id rid) x3, CallbackCalled r3], w4) \<and>
         (\<forall>n rid' w err evs w'.
            check_run_status n cfg env (Some cb) thread_id rid' w = (Some (Inl err), evs, w') \<and>
            filter is_callback evs \<noteq> [] \<longrightarrow>
              (\<exists>r wc e. fst (cb r wc) = Some e \<and> err = Foreign e)) \<and>
         (\<forall>n rid' w res evs w'.
            check_run_status n cfg env (Some cb) thread_id rid' w = (res, evs, w') \<longrightarrow>
              length (filter is_callback evs) \<le> 1)"
proof -
  let ?st = "\<lparr>run_id = rid, start_time = loop_time env w0, retry_count = 0\<rparr>"
  have i1: "poll_iteration cfg env (Some cb) thread_id ?st w0 =
      (Continue ?st, [Request (Retrieve thread_id rid) x1, PollSleep 1], asyncio_sleep env 1 w1)"
    using assms(2,3,4) by (simp add: poll_iteration_def Let_def)
  have i2: "poll_iteration cfg env (Some cb) thread_id ?st (asyncio_sleep env 1 w1) =
      (Continue ?st, [Request (Retrieve thread_id rid) x2, PollSleep 1], asyncio_sleep env 1 w2)"
    using assms(6,7,8) by (simp add: poll_iteration_def Let_def)
  have i3: "poll_iteration cfg env (Some cb) thread_id ?st (asyncio_sleep env 1 w2) =
      (Finished (Inr (Some r3)), [Request (Retrieve thread_id rid) x3, CallbackCalled r3], w4)"
    using assms(10,11,12) by (simp add: poll_iteration_def Let_def)
  have p1: "check_run_status (Suc (Suc (Suc fuel))) cfg env (Some cb) thread_id rid w0 =
           (Some (Inr (Some r3)),
                 [Request (Retrieve thread_id rid) x1, PollSleep 1,
                  Request (Retrieve thread_id rid) x2, PollSleep 1,
                  Request (Retrieve thread_id rid) x3, CallbackCalled r3], w4)"
    using assms(1,5,9) i1 i2 i3 by (simp add: check_run_status_def)
  have p2: "\<forall>n rid' w err evs w'.
            check_run_status n cfg env (Some cb) thread_id rid' w = (Some (Inl err), evs, w') \<and>
            filter is_callback evs \<noteq> [] \<longrightarrow>
              (\<exists>r wc e. fst (cb r wc) = Some e \<and> err = Foreign e)"
  proof (intro allI impI)
    fix n rid' w err evs w'
    assume h: "check_run_status n cfg env (Some cb) thread_id rid' w = (Some (Inl err), evs, w') \<and>
            filter is_callback evs \<noteq> []"
    then have "poll_loop n cfg env (Some cb) thread_id
       \<lparr>run_id = rid', start_time = loop_time env w, retry_count = 0\<rparr> w = (Some (Inl err), evs, w')"
      by (simp add: check_run_status_def)
    from poll_loop_callback[OF this] h
    show "\<exists>r wc e. fst (cb r wc) = Some e \<and> err = Foreign e" by auto
  qed
  have p3: "\<forall>n rid' w res evs w'.
            check_run_status n cfg env (Some cb) thread_id rid' w = (res, evs, w') \<longrightarrow>
              length (filter is_callback evs) \<le> 1"
  proof (intro allI impI)
    fix n rid' w res evs w'
    assume "check_run_status n cfg env (Some cb) thread_id rid' w = (res, evs, w')"
    then have "poll_loop n cfg env (Some cb) thread_id
       \<lparr>run_id = rid', start_time = loop_time env w, retry_count = 0\<rparr> w = (res, evs, w')"
      by (simp add: check_run_status_def)
    from poll_loop_callback[OF this]
    show "length (filter is_callback evs) \<le> 1" by simp
  qed
  from p1 p2 p3 show ?thesis by blast
qed

theorem queued_in_progress_completed_witness:
  "run_status_check sim_env three_reads \<and>
   exec defaults sim_env (Retrieve ''t'' ''r0'') three_reads =
     (Inr (Some (a_run ''r0'' ''queued'')), [Attempt 0 30 (Returned (a_run ''r0'' ''queued''))],
      after_queued) \<and>
   exec defaults sim_env (Retrieve ''t'' ''r0'') (asyncio_sleep sim_env 1 after_queued) =
     (Inr (Some (a_run ''r0'' ''in_progress'')),
      [Attempt 0 30 (Returned (a_run ''r0'' ''in_progress''))], after_in_progress) \<and>
   exec defaults sim_env (Retrieve ''t'' ''r0'') (asyncio_sleep sim_env 1 after_in_progress) =
     (Inr (Some (a_run ''r0'' ''completed'')),
      [Attempt 0 30 (Returned (a_run ''r0'' ''completed''))], after_completed) \<and>
   quiet (a_run ''r0'' ''completed'') after_completed = (None, after_completed) \<and>
   check_run_status (Suc (Suc (Suc 0))) defaults sim_env (Some quiet) ''t'' ''r0'' three_reads =
     (Some (Inr (Some (a_run ''r0'' ''completed''))),
       [Request (Retrieve ''t'' ''r0'') [Attempt 0 30 (Returned (a_run ''r0'' ''queued''))],
        PollSleep 1,
        Request (Retrieve ''t'' ''r0'') [Attempt 0 30 (Returned (a_run ''r0'' ''in_progress''))],
        PollSleep 1,
        Request (Retrieve ''t'' ''r0'') [Attempt 0 30 (Returned (a_run ''r0'' ''completed''))],
        CallbackCalled (a_run ''r0'' ''completed'')],
       after_completed) \<and>
   length (filter is_poll_sleep (fst (snd
      (check_run_status (Suc (Suc (Suc 0))) defaults sim_env (Some quiet) ''t'' ''r0''
         three_reads)))) = 2"
proof -
  have h1: "run_status_check sim_env three_reads"
    by (simp add: sim_env_def three_reads_def)
  have h2: "exec defaults sim_env (Retrieve ''t'' ''r0'') three_reads =
     (Inr (Some (a_run ''r0'' ''queued'')), [Attempt 0 30 (Returned (a_run ''r0'' ''queued''))],
      after_queued)"
    by (simp add: sim_eval three_worlds)
  have h3: "status (a_run ''r0'' ''queued'') = ''queued''" by (simp add: a_run_def)
  have h4: "loop_time sim_env after_queued - loop_time sim_env three_reads \<le> run_timeout defaults"
    by (simp add: sim_env_def defaults_def three_worlds)
  have h5: "run_status_check sim_env (asyncio_sleep sim_env 1 after_queued)"
    by (simp add: sim_env_def three_worlds)
  have h6: "exec defaults sim_env (Retrieve ''t'' ''r0'') (asyncio_sleep sim_env 1 after_queued) =
     (Inr (Some (a_run ''r0'' ''in_progress'')),
      [Attempt 0 30 (Returned (a_run ''r0'' ''in_progress''))], after_in_progress)"
    by (simp add: sim_eval three_worlds)
  have h7: "status (a_run ''r0'' ''in_progress'') = ''in_progress''" by (simp add: a_run_def)
  have h8: "loop_time sim_env after_in_progress - loop_time sim_env three_reads
              \<le> run_timeout defaults"
    by (simp add: sim_env_def defaults_def three_worlds)
  have h9: "run_status_check sim_env (asyncio_sleep sim_env 1 after_in_progress)"
    by (simp add: sim_env_def three_worlds)
  have h10: "exec defaults sim_env (Retrieve ''t'' ''r0'')
       (asyncio_sleep sim_env 1 after_in_progress) =
     (Inr (Some (a_run ''r0'' ''completed'')),
      [Attempt 0 30 (Returned (a_run ''r0'' ''completed''))], after_completed)"
    by (simp add: sim_eval three_worlds)
  have h11: "status (a_run ''r0'' ''completed'') = ''completed''" by (simp add: a_run_def)
  have h12: "quiet (a_run ''r0'' ''completed'') after_completed = (None, after_completed)"
    by (simp add: quiet_def)
  note t = queued_in_progress_completed[where cb = quiet and fuel = 0,
      OF h1 h2 h3 h4 h5 h6 h7 h8 h9 h10 h11 h12, THEN conjunct1]
  have two: "length (filter is_poll_sleep (fst (snd
      (check_run_status (Suc (Suc (Suc 0))) defaults sim_env (Some quiet) ''t'' ''r0''
         three_reads)))) = 2"
    by (simp add: t)
  show ?thesis by (intro conjI h1 h2 h6 h10 h12 t two)
qed

text \<open>
  C7, as stated, fails: the flag is read at the head of the loop only, so an iteration in
  flight when \<open>cleanup\<close> clears it runs to its end. In the session below the budget of
  one recreation is used up, the flag is cleared while the second read is awaited, that
  read reports \<open>failed\<close>, and the session ends with the budget error.
\<close>

theorem stop_flag_counterexample:
  "run_status_check sim_env cleared_mid_read \<and>
   check_run_status 2 (defaults\<lparr>max_run_retries := 1\<rparr>) sim_env None ''t'' ''r0''
       cleared_mid_read =
     (Some (Inl (RunFailed 1)),
       [Request (Retrieve ''t'' ''r0'') [Attempt 0 30 (Returned (a_run ''r0'' ''failed''))],
        Request (Create ''t'' ''asst'') [Attempt 0 30 (Returned (a_run ''r1'' ''queued''))],
        Request (Retrieve ''t'' ''r1'') [Attempt 0 30 (Returned (a_run ''r1'' ''failed''))]],
       \<lparr>replies = [], now = 3, polling = False, pool_shutdown = True\<rparr>) \<and>
   \<not> run_status_check sim_env \<lparr>replies = [], now = 3, polling = False, pool_shutdown = True\<rparr>"
  by (simp add: sim_eval cleared_mid_read_def)

text \<open>
  C7, amended. When the loop condition finds the flag cleared, the session ends there,
  whatever the state and the run's status: nothing more is requested, nothing is raised,
  and the coroutine returns \<open>None\<close>. An iteration during which the flag is cleared is the
  last one: its own return value or exception is the session's, and if it ends without
  either the session returns \<open>None\<close>.
\<close>

theorem stop_flag_ends_session:
  "(\<not> run_status_check env w \<longrightarrow>
      poll_loop (Suc fuel) cfg env callback thread_id st w = (Some (Inr None), [], w)) \<and>
   (run_status_check env w \<and> \<not> run_status_check env w1 \<and>
    poll_iteration cfg env callback thread_id st w = (step, evs, w1) \<longrightarrow>
      poll_loop (Suc (Suc fuel)) cfg env callback thread_id st w =
        (Some (case step of Finished res \<Rightarrow> res | Continue st1 \<Rightarrow> Inr None), evs, w1))"
  by (cases step) auto

theorem stop_flag_ends_session_witness:
  "\<not> run_status_check sim_env stopped \<and>
   poll_loop (Suc 0) defaults sim_env None ''t'' queued_state stopped =
     (Some (Inr None), [], stopped) \<and>
   run_status_check sim_env cleared_while_queued \<and>
   \<not> run_status_check sim_env slept_stopped \<and>
   poll_iteration defaults sim_env None ''t'' queued_state cleared_while_queued =
     (Continue queued_state,
      [Request (Retrieve ''t'' ''r0'') [Attempt 0 30 (Returned (a_run ''r0'' ''queued''))],
       PollSleep 1], slept_stopped) \<and>
   poll_loop (Suc (Suc 0)) defaults sim_env None ''t'' queued_state cleared_while_queued =
     (Some (Inr None),
      [Request (Retrieve ''t'' ''r0'') [Attempt 0 30 (Returned (a_run ''r0'' ''queued''))],
       PollSleep 1], slept_stopped)"
proof -
  have h1: "\<not> run_status_check sim_env stopped"
    by (simp add: sim_env_def stopped_def)
  have h2: "run_status_check sim_env cleared_while_queued"
    by (simp add: sim_env_def cleared_while_queued_def)
  have h3: "\<not> run_status_check sim_env slept_stopped"
    by (simp add: sim_env_def slept_stopped_def)
  have h4: "poll_iteration defaults sim_env None ''t'' queued_state cleared_while_queued =
     (Continue queued_state,
      [Request (Retrieve ''t'' ''r0'') [Attempt 0 30 (Returned (a_run ''r0'' ''queued''))],
       PollSleep 1], slept_stopped)"
    by (simp add: sim_eval cleared_while_queued_def queued_state_def slept_stopped_def)
  note c1 = stop_flag_ends_session[THEN conjunct1, rule_format, OF h1, where fuel = 0]
  from stop_flag_ends_session[THEN conjunct2, rule_format, OF conjI[OF h2 conjI[OF h3 h4]],
      where fuel = 0]
  have c2: "poll_loop (Suc (Suc 0)) defaults sim_env None ''t'' queued_state cleared_while_queued =
     (Some (Inr None),
      [Request (Retrieve ''t'' ''r0'') [Attempt 0 30 (Returned (a_run ''r0'' ''queued''))],
       PollSleep 1], slept_stopped)"
    by simp
  show ?thesis by (intro conjI h1 h2 h3 h4 c1 c2)
qed

text \<open>
  C8. On the timeout path with budget left, an error of the cancel request is dropped:
  the iteration goes on to the create request, and its result depends on that request
  alone (a new run to poll with a fresh timer, or the error of the create request).
\<close>

theorem cancel_failure_swallowed:
  assumes "exec cfg env (Retrieve thread_id (run_id st)) w = (Inr (Some r), x1, w1)"
    and "status r \<in> {''queued'', ''in_progress''}"
    and "run_timeout cfg < loop_time env w1 - start_time st"
    and "retry_count st < max_run_retries cfg"
    and "exec cfg env (Cancel thread_id (run_id st)) w1 = (Inl err, x2, w2)"
    and "exec cfg env (Create thread_id (assistant_id r)) w2 = (created, x3, w3)"
  shows "poll_iteration cfg env callback thread_id st w =
           (case created of
              Inl err3 \<Rightarrow> Finished (Inl err3)
            | Inr None \<Rightarrow> Finished (Inl AttributeError)
            | Inr (Some r2) \<Rightarrow>
                Continue (st\<lparr>retry_count := retry_count st + 1, run_id := id_of r2,
                            start_time := loop_time env w3\<rparr>),
            [Request (Retrieve thread_id (run_id st)) x1,
             Request (Cancel thread_id (run_id st)) x2,
             Request (Create thread_id (assistant_id r)) x3], w3)"
  using assms
  by (auto simp: poll_iteration_def Let_def split: sum.splits option.splits)

theorem cancel_failure_swallowed_witness:
  "exec defaults sim_env (Cancel ''t'' (run_id cancel_state)) read_late =
     (Inl (Foreign ''gone''),
      [Attempt 0 30 (Raised ''gone''), Backoff 1, Attempt 1 60 (Raised ''gone'')],
      cancel_gave_up) \<and>
   poll_iteration defaults sim_env None ''t'' cancel_state cancel_fails =
     (Continue (cancel_state\<lparr>retry_count := retry_count cancel_state + 1,
                  run_id := id_of (a_run ''r1'' ''queued''),
                  start_time := loop_time sim_env recreated\<rparr>),
      [Request (Retrieve ''t'' (run_id cancel_state))
         [Attempt 0 30 (Returned (a_run ''r0'' ''in_progress''))],
       Request (Cancel ''t'' (run_id cancel_state))
         [Attempt 0 30 (Raised ''gone''), Backoff 1, Attempt 1 60 (Raised ''gone'')],
       Request (Create ''t'' (assistant_id (a_run ''r0'' ''in_progress'')))
         [Attempt 0 30 (Returned (a_run ''r1'' ''queued''))]],
      recreated)"
proof -
  have h1: "exec defaults sim_env (Retrieve ''t'' (run_id cancel_state)) cancel_fails =
      (Inr (Some (a_run ''r0'' ''in_progress'')),
       [Attempt 0 30 (Returned (a_run ''r0'' ''in_progress''))], read_late)"
    by (simp add: sim_eval cancel_worlds)
  have h2: "status (a_run ''r0'' ''in_progress'') \<in> {''queued'', ''in_progress''}"
    by (simp add: a_run_def)
  have h3: "run_timeout defaults < loop_time sim_env read_late - start_time cancel_state"
    by (simp add: sim_env_def defaults_def cancel_worlds)
  have h4: "retry_count cancel_state < max_run_retries defaults"
    by (simp add: defaults_def cancel_worlds)
  have h5: "exec defaults sim_env (Cancel ''t'' (run_id cancel_state)) read_late =
     (Inl (Foreign ''gone''),
      [Attempt 0 30 (Raised ''gone''), Backoff 1, Attempt 1 60 (Raised ''gone'')],
      cancel_gave_up)"
    by (simp add: sim_eval cancel_worlds)
  have h6: "exec defaults sim_env (Create ''t'' (assistant_id (a_run ''r0'' ''in_progress'')))
       cancel_gave_up =
     (Inr (Some (a_run ''r1'' ''queued'')), [Attempt 0 30 (Returned (a_run ''r1'' ''queued''))],
      recreated)"
    by (simp add: sim_eval cancel_worlds)
  from cancel_failure_swallowed[OF h1 h2 h3 h4 h5 h6, of None]
  have t: "poll_iteration defaults sim_env None ''t'' cancel_state cancel_fails =
     (Continue (cancel_state\<lparr>retry_count := retry_count cancel_state + 1,
                  run_id := id_of (a_run ''r1'' ''queued''),
                  start_time := loop_time sim_env recreated\<rparr>),
      [Request (Retrieve ''t'' (run_id cancel_state))
         [Attempt 0 30 (Returned (a_run ''r0'' ''in_progress''))],
       Request (Cancel ''t'' (run_id cancel_state))
         [Attempt 0 30 (Raised ''gone''), Backoff 1, Attempt 1 60 (Raised ''gone'')],
       Request (Create ''t'' (assistant_id (a_run ''r0'' ''in_progress'')))
         [Attempt 0 30 (Returned (a_run ''r1'' ''queued''))]],
      recreated)"
    by simp
  show ?thesis by (intro conjI h5 t)
qed



end
